theory Spec2Isabelle
  imports
    Main
    "HOL-Library.Sublist"
    "HOL-Library.Char_ord"
    "HOL-Library.List_Lexorder"
    "HOL-Library.Product_Lexorder"
    "HOL-Library.Mapping"
    "HOL-Library.AList_Mapping"
begin

section \<open>Shared data: Python exceptions, options\<close>

text \<open>
  The classes of the exceptions the modelled code raises or catches: the built-in ones
  it names or raises itself, and \<open>Subclass name base\<close>, a class called \<open>name\<close>
  that is derived from \<open>base\<close> (\<open>IndentationError\<close> is
  \<open>Subclass ''IndentationError'' SyntaxError\<close>). A function that can raise returns
  \<open>py_exc + 'a\<close>, with \<open>Inl\<close> the class of the exception raised.

  Strings are lists of 8-bit characters, read as the Unicode code points 0 to 255 and
  compared by code point, as Python compares \<open>str\<close>.
\<close>

datatype py_exc =
    AttributeError
  | IndexError
  | ValueError
  | TypeError
  | SyntaxError
  | UnboundLocalError
  | Subclass string py_exc

text \<open>
  \<open>issubclass(c, b)\<close>, which decides whether \<open>except b\<close> catches an exception
  of class \<open>c\<close>: a class is a subclass of itself and of what its base is a subclass
  of. None of the built-in classes listed is derived from another one of them.
\<close>

fun issubclass :: "py_exc \<Rightarrow> py_exc \<Rightarrow> bool" where
  "issubclass (Subclass name base) b = (Subclass name base = b \<or> issubclass base b)"
| "issubclass c b = (c = b)"

text \<open>The fields of \<open>style_guide.options\<close> that the modelled methods read.\<close>

record options =
  select :: "string list"
  ignore :: "string list"
  disable_noqa :: bool
  diff :: bool
  jobs :: string

section \<open>checker.py: find_offset\<close>

text \<open>
  \<open>find_offset(offset, mapping)\<close>: the offset is either already a
  \<open>(line, column)\<close> tuple or an integer; the mapping is a list of
  \<open>(token_offset, (line, column))\<close> entries.
\<close>

datatype offset = Tuple int int | Offset int

type_synonym position_mapping = "(int \<times> (int \<times> int)) list"

text \<open>
  The \<open>for\<close> loop with its \<open>break\<close>. The third argument holds the loop variables
  \<open>(token_offset, position)\<close> as bound so far: \<open>None\<close> before the first iteration.
\<close>

fun find_offset_loop ::
  "int \<Rightarrow> position_mapping \<Rightarrow> (int \<times> (int \<times> int)) option \<Rightarrow> (int \<times> (int \<times> int)) option" where
  "find_offset_loop offset [] bound = bound"
| "find_offset_loop offset ((token_offset, position) # rest) bound =
     (if offset \<le> token_offset then Some (token_offset, position)
      else find_offset_loop offset rest (Some (token_offset, position)))"

text \<open>
  After the loop the variables are read; on an empty mapping they were never bound and
  Python raises \<open>UnboundLocalError\<close>.
\<close>

definition find_offset :: "offset \<Rightarrow> position_mapping \<Rightarrow> py_exc + (int \<times> int)" where
  "find_offset offset mapping =
     (case offset of
        Tuple line col \<Rightarrow> Inr (line, col)
      | Offset n \<Rightarrow>
          (case find_offset_loop n mapping None of
             None \<Rightarrow> Inl UnboundLocalError
           | Some (token_offset, position) \<Rightarrow>
               Inr (fst position, snd position + n - token_offset)))"

section \<open>checker.py: Manager._job_count\<close>

text \<open>
  What \<open>_job_count\<close> reads from outside the class: whether the \<open>multiprocessing\<close>
  module was imported, \<open>utils.is_windows()\<close>, \<open>utils.is_using_stdin(arguments)\<close>
  (both of \<open>flake8.utils\<close>, taken as given values), and
  \<open>multiprocessing.cpu_count()\<close>, where \<open>None\<close> stands for
  \<open>NotImplementedError\<close>.
\<close>

record environment =
  multiprocessing :: bool
  is_windows :: bool
  is_using_stdin :: bool
  cpu_count :: "int option"

text \<open>The decimal digits \<open>0\<close> to \<open>9\<close>, the only digits below code point 256 that \<open>int\<close> reads.\<close>

definition is_decimal :: "char \<Rightarrow> bool" where
  "is_decimal c = (CHR ''0'' \<le> c \<and> c \<le> CHR ''9'')"

text \<open>
  The characters below code point 256 that \<open>str.isdigit()\<close> counts as digits: the
  decimal digits and the superscript digits U+00B2, U+00B3 and U+00B9.
\<close>

definition is_digit :: "char \<Rightarrow> bool" where
  "is_digit c = (is_decimal c \<or> c = CHR 0xB2 \<or> c = CHR 0xB3 \<or> c = CHR 0xB9)"

text \<open>\<open>str.isdigit()\<close>: at least one character, and every character a digit.\<close>

definition isdigit :: "string \<Rightarrow> bool" where
  "isdigit s = (s \<noteq> [] \<and> list_all is_digit s)"

definition digit_value :: "char \<Rightarrow> int" where
  "digit_value c = int (of_char c) - 48"

text \<open>
  \<open>int(s)\<close> for a string on which \<open>s.isdigit()\<close> holds, the only strings
  \<open>_job_count\<close> passes to it: the decimal value when every character is a decimal
  digit; a superscript digit is no digit for \<open>int\<close>, which raises \<open>ValueError\<close>.
  (Signs, blanks and underscores, which \<open>int\<close> also reads, never pass \<open>isdigit\<close>.)
\<close>

definition decimal_value :: "string \<Rightarrow> int" where
  "decimal_value s = foldl (\<lambda>acc c. 10 * acc + digit_value c) 0 s"

definition py_int :: "string \<Rightarrow> py_exc + int" where
  "py_int s =
     (if s \<noteq> [] \<and> list_all is_decimal s then Inr (decimal_value s) else Inl ValueError)"

definition job_count :: "environment \<Rightarrow> options \<Rightarrow> py_exc + int" where
  "job_count env opts =
     (if \<not> multiprocessing env then Inr 0
      else if is_windows env then Inr 0
      else if is_using_stdin env then Inr 0
      else if diff opts then Inr 0
      else if jobs opts \<noteq> ''auto'' \<and> \<not> isdigit (jobs opts) then Inr 0
      else if jobs opts = ''auto'' then
        (case cpu_count env of Some n \<Rightarrow> Inr n | None \<Rightarrow> Inr 0)
      else py_int (jobs opts))"

section \<open>style_guide.py: the StyleGuide\<close>

datatype user_decision =
    Selected_Explicitly
  | Selected_Implicitly
  | Ignored_Explicitly
  | Ignored_Implicitly

datatype decision = Ignored | Selected

text \<open>The \<open>Error\<close> named tuple.\<close>

record error =
  code :: string
  filename :: string
  line_number :: int
  column_number :: int
  error_text :: string
  physical_line :: "string option"

text \<open>
  The attributes of a \<open>StyleGuide\<close> that the decision methods use. The parsed diff
  maps a filename to its set of line numbers.
\<close>

record style_guide =
  sg_options :: options
  selected :: "string list"
  ignored :: "string list"
  decision_cache :: "(string, decision option) mapping"
  parsed_diff :: "(string, int set) mapping"

subsection \<open>is_in_diff\<close>

definition is_in_diff :: "style_guide \<Rightarrow> error \<Rightarrow> bool" where
  "is_in_diff self err =
     (if Mapping.is_empty (parsed_diff self) then True
      else
        (case Mapping.lookup (parsed_diff self) (filename err) of
           None \<Rightarrow> False
         | Some line_numbers \<Rightarrow>
             if line_numbers = {} then False
             else line_number err \<in> line_numbers))"

subsection \<open>Selection and ignoring of codes\<close>

text \<open>\<open>code.startswith(prefixes)\<close> with a tuple of prefixes: some prefix matches.\<close>

definition startswith :: "string \<Rightarrow> string list \<Rightarrow> bool" where
  "startswith s ps = list_ex (\<lambda>p. prefix p s) ps"

text \<open>\<open>__init__\<close>: the select and ignore options become tuples, the caches start empty.\<close>

definition StyleGuide_init :: "options \<Rightarrow> style_guide" where
  "StyleGuide_init opts =
     \<lparr>sg_options = opts, selected = select opts, ignored = ignore opts,
      decision_cache = Mapping.empty, parsed_diff = Mapping.empty\<rparr>"

definition is_user_selected :: "style_guide \<Rightarrow> string \<Rightarrow> user_decision" where
  "is_user_selected self c =
     (if selected self = [] then Selected_Implicitly
      else if startswith c (selected self) then Selected_Explicitly
      else Ignored_Implicitly)"

definition is_user_ignored :: "style_guide \<Rightarrow> string \<Rightarrow> user_decision" where
  "is_user_ignored self c =
     (if ignored self \<noteq> [] \<and> startswith c (ignored self) then Ignored_Explicitly
      else Selected_Implicitly)"

text \<open>
  \<open>_decision_for\<close>: element 0 of each sorted list of matching prefixes;
  \<open>IndexError\<close> when a list is empty.
\<close>

definition decision_for :: "style_guide \<Rightarrow> string \<Rightarrow> py_exc + decision" where
  "decision_for self c =
     (case sort (filter (\<lambda>s. prefix s c) (selected self)) of
        [] \<Rightarrow> Inl IndexError
      | sel # _ \<Rightarrow>
          (case sort (filter (\<lambda>i. prefix i c) (ignored self)) of
             [] \<Rightarrow> Inl IndexError
           | ign # _ \<Rightarrow> Inr (if prefix ign sel then Selected else Ignored)))"

text \<open>
  The body of \<open>if decision is None:\<close> in \<open>should_report_error\<close>, up to the store
  into the cache. The chain of \<open>if\<close>/\<open>elif\<close> has no \<open>else\<close>: where no branch
  applies the decision stays \<open>None\<close>.
\<close>

definition uncached_decision :: "style_guide \<Rightarrow> string \<Rightarrow> py_exc + decision option" where
  "uncached_decision self c =
     (let sel = is_user_selected self c; ign = is_user_ignored self c in
      if (sel = Selected_Explicitly \<or> sel = Selected_Implicitly) \<and> ign = Selected_Implicitly
        then Inr (Some Selected)
      else if sel = Selected_Explicitly \<and> ign = Ignored_Explicitly
        then (case decision_for self c of Inl e \<Rightarrow> Inl e | Inr d \<Rightarrow> Inr (Some d))
      else if sel = Ignored_Implicitly \<or> ign = Ignored_Explicitly
        then Inr (Some Ignored)
      else Inr None)"

text \<open>\<open>dict.get\<close>: a missing key and a stored \<open>None\<close> both read as \<open>None\<close>.\<close>

definition cache_get :: "(string, decision option) mapping \<Rightarrow> string \<Rightarrow> decision option" where
  "cache_get m c = (case Mapping.lookup m c of None \<Rightarrow> None | Some v \<Rightarrow> v)"

definition should_report_error ::
  "style_guide \<Rightarrow> string \<Rightarrow> py_exc + (decision option \<times> style_guide)" where
  "should_report_error self c =
     (case cache_get (decision_cache self) c of
        Some d \<Rightarrow> Inr (Some d, self)
      | None \<Rightarrow>
          (case uncached_decision self c of
             Inl e \<Rightarrow> Inl e
           | Inr d \<Rightarrow>
               Inr (d, self\<lparr>decision_cache := Mapping.update c d (decision_cache self)\<rparr>)))"

text \<open>
  A style guide after a sequence of earlier \<open>should_report_error\<close> calls; a call that
  raises leaves the guide as it was.
\<close>

fun after_calls :: "style_guide \<Rightarrow> string list \<Rightarrow> style_guide" where
  "after_calls self [] = self"
| "after_calls self (c # cs) =
     (case should_report_error self c of
        Inl e \<Rightarrow> after_calls self cs
      | Inr (d, self') \<Rightarrow> after_calls self' cs)"

subsection \<open>Inline suppression: NOQA_INLINE_REGEXP and is_inline_ignored\<close>

text \<open>
  The pattern is \<^verbatim>\<open># noqa(?:: )?(?P<codes>[A-Z0-9,]+)?$\<close>, compiled with
  \<open>re.IGNORECASE\<close> and used with \<open>search\<close>. The matcher below follows the
  backtracking order of \<open>re\<close> for this pattern; its result is the \<open>codes\<close>
  group of the match (\<open>None\<close> when the group did not take part).

  Under \<open>IGNORECASE\<close> a character of the pattern matches a character of the line
  when they are equal after folding the letters \<open>A\<close>..\<open>Z\<close> to lower case.
\<close>

definition case_fold :: "char \<Rightarrow> nat" where
  "case_fold c = (let n = of_char c in if 65 \<le> n \<and> n \<le> 90 then n + 32 else n)"

definition same_ignoring_case :: "char \<Rightarrow> char \<Rightarrow> bool" where
  "same_ignoring_case p c = (case_fold p = case_fold c)"

text \<open>The class \<^verbatim>\<open>[A-Z0-9,]\<close> under \<open>IGNORECASE\<close>.\<close>

definition is_code_char :: "char \<Rightarrow> bool" where
  "is_code_char c =
     ((CHR ''A'' \<le> c \<and> c \<le> CHR ''Z'') \<or> (CHR ''a'' \<le> c \<and> c \<le> CHR ''z'')
      \<or> (CHR ''0'' \<le> c \<and> c \<le> CHR ''9'') \<or> c = CHR '','')"

text \<open>A literal of the pattern at the start of the line: what follows it, if it matches.\<close>

fun match_literal :: "string \<Rightarrow> string \<Rightarrow> string option" where
  "match_literal [] s = Some s"
| "match_literal (p # ps) [] = None"
| "match_literal (p # ps) (c # cs) =
     (if same_ignoring_case p c then match_literal ps cs else None)"

text \<open>\<^verbatim>\<open>$\<close> without \<open>MULTILINE\<close>: the end of the string, or just before a final newline.\<close>

definition at_end :: "string \<Rightarrow> bool" where
  "at_end s = (s = [] \<or> s = [CHR 0x0A])"

text \<open>
  \<^verbatim>\<open>(?P<codes>[A-Z0-9,]+)?$\<close>: the group is greedy, so the longest run of code
  characters is tried first, then each shorter one, and last the group left out;
  \<open>try_runs n r\<close> tries the runs of length \<open>n\<close> down to 1, then none.
\<close>

primrec try_runs :: "nat \<Rightarrow> string \<Rightarrow> string option option" where
  "try_runs 0 r = (if at_end r then Some None else None)"
| "try_runs (Suc n) r =
     (if at_end (drop (Suc n) r) then Some (Some (take (Suc n) r)) else try_runs n r)"

definition match_codes_end :: "string \<Rightarrow> string option option" where
  "match_codes_end r = try_runs (length (takeWhile is_code_char r)) r"

text \<open>
  The whole pattern at the start of the line: the literal \<^verbatim>\<open># noqa\<close>, then the
  optional \<^verbatim>\<open>: \<close> (tried with it first, then without), then the codes and
  the end.
\<close>

definition match_here :: "string \<Rightarrow> string option option" where
  "match_here s =
     (case match_literal ''# noqa'' s of
        None \<Rightarrow> None
      | Some r \<Rightarrow>
          (case (case match_literal '': '' r of
                   None \<Rightarrow> None
                 | Some r' \<Rightarrow> match_codes_end r') of
             Some g \<Rightarrow> Some g
           | None \<Rightarrow> match_codes_end r))"

text \<open>\<open>search\<close>: the match at the leftmost position that has one.\<close>

fun search :: "string \<Rightarrow> string option option" where
  "search [] = match_here []"
| "search (c # cs) =
     (case match_here (c # cs) of Some g \<Rightarrow> Some g | None \<Rightarrow> search cs)"

text \<open>
  Modelled from the spec: \<open>utils.parse_comma_separated_list\<close> is not among the source
  files; the spec describes the code list as comma-separated, so the listed codes are
  the items between the commas. \<open>is_inline_ignored\<close> takes the parser as an argument
  and this one is used only to run it on concrete lines.
\<close>

fun split_on :: "char \<Rightarrow> string \<Rightarrow> string list" where
  "split_on sep [] = [[]]"
| "split_on sep (c # cs) =
     (if c = sep then [] # split_on sep cs
      else (case split_on sep cs of [] \<Rightarrow> [[c]] | w # ws \<Rightarrow> (c # w) # ws))"

definition parse_comma_separated_list :: "string \<Rightarrow> string list" where
  "parse_comma_separated_list s = (if s = [] then [] else split_on CHR '','' s)"

text \<open>
  The line \<open>is_inline_ignored\<close> searches: the error's physical line or, when it is
  \<open>None\<close>, \<open>linecache.getline(filename, line_number)\<close> (an argument here).
\<close>

definition line_of :: "(string \<Rightarrow> int \<Rightarrow> string) \<Rightarrow> error \<Rightarrow> string" where
  "line_of getline err =
     (case physical_line err of
        None \<Rightarrow> getline (filename err) (line_number err)
      | Some line \<Rightarrow> line)"

definition is_inline_ignored ::
  "(string \<Rightarrow> int \<Rightarrow> string) \<Rightarrow> (string \<Rightarrow> string list) \<Rightarrow> style_guide \<Rightarrow> error \<Rightarrow> bool" where
  "is_inline_ignored getline parse self err =
     (if disable_noqa (sg_options self) then False
      else
        (case search (line_of getline err) of
           None \<Rightarrow> False
         | Some None \<Rightarrow> True
         | Some (Some codes_str) \<Rightarrow>
             (let codes = parse codes_str
              in code err \<in> set codes \<or> startswith (code err) codes)))"

section \<open>checker.py: the FileChecker\<close>

text \<open>
  Python values as far as the modelled code inspects them: the arguments of an exception
  and the positions of a diagnostic are integers, strings, \<open>None\<close> or tuples.
\<close>

datatype py_value = PyInt int | PyStr string | PyNone | PyTuple "py_value list"

text \<open>A caught exception: its type and its \<open>args\<close>.\<close>

datatype exception = Exception (exc_type: py_exc) (args: "py_value list")

text \<open>\<open>exc_type.__name__\<close>.\<close>

definition exc_name :: "py_exc \<Rightarrow> string" where
  "exc_name t =
     (case t of
        AttributeError \<Rightarrow> ''AttributeError''
      | IndexError \<Rightarrow> ''IndexError''
      | ValueError \<Rightarrow> ''ValueError''
      | TypeError \<Rightarrow> ''TypeError''
      | SyntaxError \<Rightarrow> ''SyntaxError''
      | UnboundLocalError \<Rightarrow> ''UnboundLocalError''
      | Subclass name base \<Rightarrow> name)"

text \<open>
  \<open>len(v)\<close>, \<open>v[i]\<close> and \<open>v[i:j]\<close> on a tuple or a string; on an integer or
  \<open>None\<close> they raise \<open>TypeError\<close>, and an index out of range raises
  \<open>IndexError\<close>.
\<close>

definition py_len :: "py_value \<Rightarrow> py_exc + nat" where
  "py_len v =
     (case v of
        PyTuple xs \<Rightarrow> Inr (length xs)
      | PyStr s \<Rightarrow> Inr (length s)
      | _ \<Rightarrow> Inl TypeError)"

definition py_getitem :: "py_value \<Rightarrow> nat \<Rightarrow> py_exc + py_value" where
  "py_getitem v i =
     (case v of
        PyTuple xs \<Rightarrow> if i < length xs then Inr (xs ! i) else Inl IndexError
      | PyStr s \<Rightarrow> if i < length s then Inr (PyStr [s ! i]) else Inl IndexError
      | _ \<Rightarrow> Inl TypeError)"

definition py_slice :: "nat \<Rightarrow> nat \<Rightarrow> py_value \<Rightarrow> py_exc + py_value" where
  "py_slice i j v =
     (case v of
        PyTuple xs \<Rightarrow> Inr (PyTuple (take (j - i) (drop i xs)))
      | PyStr s \<Rightarrow> Inr (PyStr (take (j - i) (drop i s)))
      | _ \<Rightarrow> Inl TypeError)"

text \<open>
  \<open>'%s' % v\<close>: a string is inserted as it is; for the other values the text is
  \<open>str(v)\<close>, an argument of the model.
\<close>

definition py_format :: "(py_value \<Rightarrow> string) \<Rightarrow> py_value \<Rightarrow> string" where
  "py_format str v = (case v of PyStr s \<Rightarrow> s | _ \<Rightarrow> str v)"

text \<open>
  An entry of \<open>FileChecker.results\<close>: the tuple
  \<open>(error_code, line_number, column, text, physical_line)\<close>. Python does not type the
  positions: they are whatever the plugin or the exception supplies, so the model leaves
  their type open.
\<close>

type_synonym 'pos result = "string \<times> 'pos \<times> 'pos \<times> string \<times> string option"

text \<open>
  The \<open>FileProcessor\<close> (module \<open>flake8.processor\<close>, not among the source files), as
  far as the modelled methods use it: the line lookup and the outcome of
  \<open>build_ast()\<close>, which is the exception it raises or the tree.
\<close>

record ('pos, 'tree) processor =
  line_for :: "'pos \<Rightarrow> string option"
  build_ast :: "exception + 'tree"

text \<open>
  An attribute of an object under construction: not yet assigned, or bound to a value.
  \<open>self.processor\<close> is bound to \<open>None\<close> or to a processor, and reading it before
  it is assigned raises \<open>AttributeError\<close>.
\<close>

datatype 'a attribute = Missing | Bound 'a

record ('pos, 'tree) file_checker =
  checker_filename :: string
  results :: "'pos result list"
  processor :: "('pos, 'tree) processor option attribute"

text \<open>
  \<open>text.split(' ', 1)\<close> unpacked into two names: the text before the first space and
  the text after it; with no space there is one item only and the unpacking fails.
\<close>

fun split_at_space :: "string \<Rightarrow> (string \<times> string) option" where
  "split_at_space [] = None"
| "split_at_space (c # cs) =
     (if c = CHR '' '' then Some ([], cs)
      else (case split_at_space cs of
              None \<Rightarrow> None
            | Some (first, rest) \<Rightarrow> Some (c # first, rest)))"

text \<open>
  \<open>FileChecker.report\<close>: returns the error code and the checker with the error
  appended to its results.
\<close>

definition report ::
  "('pos, 'tree) file_checker \<Rightarrow> string option \<Rightarrow> 'pos \<Rightarrow> 'pos \<Rightarrow> string \<Rightarrow>
     py_exc + (string \<times> ('pos, 'tree) file_checker)" where
  "report self error_code line_no column text =
     (case (case error_code of
              None \<Rightarrow> (case split_at_space text of None \<Rightarrow> Inl ValueError | Some ct \<Rightarrow> Inr ct)
            | Some c \<Rightarrow> Inr (c, text)) of
        Inl e \<Rightarrow> Inl e
      | Inr (error_code, text) \<Rightarrow>
          (case processor self of
             Missing \<Rightarrow> Inl AttributeError
           | Bound None \<Rightarrow> Inl AttributeError
           | Bound (Some p) \<Rightarrow>
               (let line = line_for p line_no;
                    error = (error_code, line_no, column, text, line)
                in Inr (error_code, self\<lparr>results := results self @ [error]\<rparr>))))"

text \<open>
  The \<open>IOError\<close> that \<open>FileProcessor(filename, options)\<close> raises on an unreadable
  file: the name of its type and its \<open>str()\<close>.
\<close>

datatype io_error = IOError (io_name: string) (io_message: string)

text \<open>
  \<open>_make_processor\<close>; its second argument is the outcome of the \<open>FileProcessor\<close>
  constructor. It is called from \<open>__init__\<close> and its result is what \<open>__init__\<close>
  assigns to \<open>self.processor\<close>.
\<close>

definition make_processor ::
  "('pos::zero, 'tree) file_checker \<Rightarrow> io_error + ('pos, 'tree) processor \<Rightarrow>
     py_exc + (('pos, 'tree) processor option \<times> ('pos, 'tree) file_checker)" where
  "make_processor self opened =
     (case opened of
        Inr p \<Rightarrow> Inr (Some p, self)
      | Inl exception \<Rightarrow>
          (let message = io_name exception @ '': '' @ io_message exception
           in case report self (Some ''E902'') 0 0 message of
                Inl e \<Rightarrow> Inl e
              | Inr (_, self') \<Rightarrow> Inr (None, self')))"

definition FileChecker_init ::
  "string \<Rightarrow> io_error + ('pos::zero, 'tree) processor \<Rightarrow> py_exc + ('pos, 'tree) file_checker" where
  "FileChecker_init name opened =
     (let self = \<lparr>checker_filename = name, results = [], processor = Missing\<rparr>
      in case make_processor self opened of
           Inl e \<Rightarrow> Inl e
         | Inr (p, self') \<Rightarrow> Inr (self'\<lparr>processor := Bound p\<rparr>))"

text \<open>
  The loops of \<open>run_ast_checks\<close> over the plugins and over what each plugin yields. A
  plugin is the function from the tree to the \<open>(line_number, offset, text)\<close> items of
  \<open>checker.run()\<close> (the fourth item, the check itself, is not used).
\<close>

fun report_all ::
  "('pos, 'tree) file_checker \<Rightarrow> ('pos \<times> 'pos \<times> string) list \<Rightarrow>
     py_exc + ('pos, 'tree) file_checker" where
  "report_all self [] = Inr self"
| "report_all self ((line_no, offset, text) # rest) =
     (case report self None line_no offset text of
        Inl e \<Rightarrow> Inl e
      | Inr (_, self') \<Rightarrow> report_all self' rest)"

fun run_ast_plugins ::
  "('tree \<Rightarrow> ('pos \<times> 'pos \<times> string) list) list \<Rightarrow> 'tree \<Rightarrow> ('pos, 'tree) file_checker \<Rightarrow>
     py_exc + ('pos, 'tree) file_checker" where
  "run_ast_plugins [] ast self = Inr self"
| "run_ast_plugins (plugin # plugins) ast self =
     (case report_all self (plugin ast) of
        Inl e \<Rightarrow> Inl e
      | Inr self' \<Rightarrow> run_ast_plugins plugins ast self')"

definition run_ast_checks ::
  "(py_value \<Rightarrow> string) \<Rightarrow> ('tree \<Rightarrow> (py_value \<times> py_value \<times> string) list) list \<Rightarrow>
     (py_value, 'tree) file_checker \<Rightarrow> py_exc + (py_value, 'tree) file_checker" where
  "run_ast_checks str ast_plugins self =
     (case processor self of
        Missing \<Rightarrow> Inl AttributeError
      | Bound None \<Rightarrow> Inl AttributeError
      | Bound (Some p) \<Rightarrow>
          (case build_ast p of
             Inl exception \<Rightarrow>
               if \<not> (issubclass (exc_type exception) ValueError
                       \<or> issubclass (exc_type exception) SyntaxError
                       \<or> issubclass (exc_type exception) TypeError)
               then Inl (exc_type exception)
               else
                 (case (if length (args exception) > 1
                        then (let offset = args exception ! 1
                              in case py_len offset of
                                   Inl e \<Rightarrow> Inl e
                                 | Inr n \<Rightarrow> if n > 2 then py_slice 1 3 offset else Inr offset)
                        else Inr (PyTuple [PyInt 1, PyInt 0])) of
                    Inl e \<Rightarrow> Inl e
                  | Inr offset \<Rightarrow>
                      (case py_getitem offset 0 of
                         Inl e \<Rightarrow> Inl e
                       | Inr line_no \<Rightarrow>
                           (case py_getitem offset 1 of
                              Inl e \<Rightarrow> Inl e
                            | Inr column \<Rightarrow>
                                (case args exception of
                                   [] \<Rightarrow> Inl IndexError
                                 | message # _ \<Rightarrow>
                                     (case report self (Some ''E999'') line_no column
                                             (exc_name (exc_type exception) @ '': ''
                                                @ py_format str message) of
                                        Inl e \<Rightarrow> Inl e
                                      | Inr (_, self') \<Rightarrow> Inr self')))))
           | Inr ast \<Rightarrow> run_ast_plugins ast_plugins ast self))"

section \<open>checker.py: the Manager\<close>

record 'tree manager =
  manager_jobs :: int
  using_multiprocessing :: bool
  checkers :: "(int, 'tree) file_checker list"

text \<open>
  \<open>Manager.__init__\<close>: the job count decides whether multiprocessing is used; the
  checkers are filled in later by \<open>make_checkers\<close>.
\<close>

definition Manager_init ::
  "environment \<Rightarrow> options \<Rightarrow> py_exc + 'tree manager" where
  "Manager_init env opts =
     (case job_count env opts of
        Inl e \<Rightarrow> Inl e
      | Inr n \<Rightarrow> Inr \<lparr>manager_jobs = n, using_multiprocessing = (n > 1), checkers = []\<rparr>)"

text \<open>
  The calls \<open>style_guide.handle_error(code=..., filename=..., ...)\<close> made for a list
  of results, each as the \<open>Error\<close> that \<open>handle_error\<close> builds from its arguments.
\<close>

definition handle_error_calls :: "string \<Rightarrow> int result list \<Rightarrow> error list" where
  "handle_error_calls name rs =
     map (\<lambda>(error_code, line_no, column, text, line).
            \<lparr>code = error_code, filename = name, line_number = line_no,
             column_number = column, error_text = text, physical_line = line\<rparr>) rs"

text \<open>\<open>_report_after_serial\<close>: the sort key is \<open>(tup[2], tup[3])\<close>.\<close>

definition report_after_serial :: "'tree manager \<Rightarrow> error list" where
  "report_after_serial self =
     concat (map (\<lambda>checker.
        handle_error_calls (checker_filename checker)
          (sort_key (\<lambda>(t0, t1, t2, t3, t4). (t2, t3)) (results checker)))
       (checkers self))"

definition Manager_report :: "'tree manager \<Rightarrow> error list" where
  "Manager_report self =
     (if \<not> using_multiprocessing self then report_after_serial self else [])"

text \<open>
  What travels on the results queue: the sentinel \<open>'DONE'\<close> or a pair
  \<open>(filename, results)\<close>.
\<close>

datatype message = DONE | Result string "int result list"

text \<open>
  \<open>_results\<close>: the third argument is the sequence of messages that ever arrive on the
  results queue, in arrival order. The result is what the generator has yielded when it
  ends; \<open>None\<close> when \<open>results_queue.get()\<close> is called on the exhausted queue and
  blocks for ever.
\<close>

fun results_loop :: "int \<Rightarrow> int \<Rightarrow> message list \<Rightarrow> (string \<times> int result list) list option" where
  "results_loop n seen_done [] = None"
| "results_loop n seen_done (DONE # queue) =
     (if seen_done + 1 \<ge> n then Some []
      else results_loop n (seen_done + 1) queue)"
| "results_loop n seen_done (Result name rs # queue) =
     (case results_loop n seen_done queue of
        None \<Rightarrow> None
      | Some yielded \<Rightarrow> Some ((name, rs) # yielded))"

definition Manager_results :: "'tree manager \<Rightarrow> message list \<Rightarrow> (string \<times> int result list) list option" where
  "Manager_results self queue = results_loop (manager_jobs self) 0 queue"

text \<open>
  \<open>_report_after_parallel\<close>: collects all of \<open>_results()\<close> into a dictionary (a
  later pair for a filename replaces an earlier one), then replays the checkers in order
  with the sort key \<open>(tup[1], tup[2])\<close>. \<open>None\<close> when the collection never ends.
\<close>

definition report_after_parallel :: "'tree manager \<Rightarrow> message list \<Rightarrow> error list option" where
  "report_after_parallel self queue =
     (case Manager_results self queue of
        None \<Rightarrow> None
      | Some yielded \<Rightarrow>
          (let final_results =
                 foldl (\<lambda>m (name, rs). Mapping.update name rs m) Mapping.empty yielded
           in Some (concat (map (\<lambda>checker.
                  handle_error_calls (checker_filename checker)
                    (sort_key (\<lambda>(t0, t1, t2, t3, t4). (t1, t2))
                       (case Mapping.lookup final_results (checker_filename checker) of
                          None \<Rightarrow> []
                        | Some rs \<Rightarrow> rs)))
                 (checkers self)))))"

text \<open>
  \<open>_run_checks_from_queue\<close> for one worker: \<open>received\<close> are the checkers it takes
  from the process queue before its sentinel, \<open>run_checks\<close> gives what
  \<open>checker.run_checks(self.results_queue)\<close> puts on the results queue (nothing for a
  file that is ignored). The result is what the worker puts on the results queue.
\<close>

definition run_checks_from_queue ::
  "('c \<Rightarrow> message option) \<Rightarrow> 'c list \<Rightarrow> message list" where
  "run_checks_from_queue run_checks received = List.map_filter run_checks received @ [DONE]"

text \<open>
  \<open>run_parallel\<close>: one worker process per element of \<open>range(self.jobs - 1)\<close>.
\<close>

definition run_parallel_workers :: "'tree manager \<Rightarrow> nat list" where
  "run_parallel_workers self = [0..<nat (manager_jobs self - 1)]"

text \<open>
  The invariant of the decision cache: a stored decision is the one the uncached
  computation gives.
\<close>

definition cache_consistent :: "style_guide \<Rightarrow> bool" where
  "cache_consistent self =
     (\<forall>c d. Mapping.lookup (decision_cache self) c = Some (Some d) \<longrightarrow>
        uncached_decision self c = Inr (Some d))"

section \<open>Properties\<close>

subsection \<open>find_offset\<close>

lemma find_offset_loop_beyond:
  "\<forall>e \<in> set mapping. fst e < n \<Longrightarrow>
     find_offset_loop n mapping bound = (if mapping = [] then bound else Some (last mapping))"
proof (induction mapping arbitrary: bound)
  case Nil
  show ?case by simp
next
  case (Cons e rest)
  obtain token_offset position where e: "e = (token_offset, position)"
    by (cases e)
  from Cons.prems e have "\<not> n \<le> token_offset" by simp
  moreover from Cons.prems have "\<forall>e \<in> set rest. fst e < n" by simp
  ultimately show ?case
    using Cons.IH [of "Some (token_offset, position)"] e by simp
qed

text \<open>
  C10. On a non-empty mapping, an integer offset strictly greater than every boundary
  offset resolves against the last entry: the last entry's line, and its column plus
  the distance of the offset from its boundary. An offset that is already a
  \<open>(line, column)\<close> tuple is returned unchanged, whatever the mapping.
\<close>

theorem find_offset_past_last_entry:
  "(mapping \<noteq> [] \<and> (\<forall>e \<in> set mapping. fst e < n) \<longrightarrow>
      find_offset (Offset n) mapping =
        Inr (fst (snd (last mapping)),
             snd (snd (last mapping)) + (n - fst (last mapping))))
   \<and> find_offset (Tuple line col) mapping = Inr (line, col)"
proof -
  have "find_offset (Offset n) mapping =
          Inr (fst (snd (last mapping)), snd (snd (last mapping)) + (n - fst (last mapping)))"
    if ne: "mapping \<noteq> []" and gt: "\<forall>e \<in> set mapping. fst e < n"
  proof -
    have "find_offset_loop n mapping None = Some (last mapping)"
      using find_offset_loop_beyond [OF gt, of None] ne by simp
    then show ?thesis
      by (cases "last mapping") (simp add: find_offset_def)
  qed
  moreover have "find_offset (Tuple line col) mapping = Inr (line, col)"
    by (simp add: find_offset_def)
  ultimately show ?thesis by blast
qed

theorem find_offset_past_last_entry_witness:
  "(0::int) < 8 \<and> (5::int) < 8
   \<and> find_offset (Offset 8) [(0, (3, 4)), (5, (3, 9))] = Inr (3, 12)
   \<and> find_offset (Tuple 7 2) [(0, (3, 4)), (5, (3, 9))] = Inr (7, 2)"
  using find_offset_past_last_entry [of "[(0, (3, 4)), (5, (3, 9))]" 8 7 2]
  by simp

subsection \<open>is_in_diff\<close>

text \<open>
  C7. With an empty diff-range table every diagnostic is in the diff. With a non-empty
  table, a diagnostic whose filename has no entry, or an entry with an empty set of line
  numbers, is not in the diff; otherwise it is in the diff exactly when its line number
  is a member of that file's set.
\<close>

theorem is_in_diff_cases:
  "(Mapping.is_empty (parsed_diff self) \<longrightarrow> is_in_diff self err)
   \<and> (\<not> Mapping.is_empty (parsed_diff self) \<longrightarrow>
        (Mapping.lookup (parsed_diff self) (filename err) = None
           \<or> Mapping.lookup (parsed_diff self) (filename err) = Some {}) \<longrightarrow>
        \<not> is_in_diff self err)
   \<and> (\<not> Mapping.is_empty (parsed_diff self) \<longrightarrow>
        Mapping.lookup (parsed_diff self) (filename err) = Some line_numbers \<longrightarrow>
        line_numbers \<noteq> {} \<longrightarrow>
        is_in_diff self err = (line_number err \<in> line_numbers))"
  by (auto simp: is_in_diff_def split: option.splits)

theorem is_in_diff_cases_witness:
  "is_in_diff \<lparr>sg_options = \<lparr>select = [], ignore = [], disable_noqa = False, diff = True,
       jobs = ''auto''\<rparr>, selected = [], ignored = [],
       decision_cache = Mapping.empty, parsed_diff = Mapping.empty\<rparr>
     \<lparr>code = ''E501'', filename = ''a.py'', line_number = 2, column_number = 0,
       error_text = ''line too long'', physical_line = None\<rparr>
   \<and> \<not> is_in_diff \<lparr>sg_options = \<lparr>select = [], ignore = [], disable_noqa = False, diff = True,
       jobs = ''auto''\<rparr>, selected = [], ignored = [],
       decision_cache = Mapping.empty,
       parsed_diff = Mapping.update ''a.py'' {3, 4, 5} Mapping.empty\<rparr>
     \<lparr>code = ''E501'', filename = ''b.py'', line_number = 1, column_number = 0,
       error_text = ''line too long'', physical_line = None\<rparr>
   \<and> \<not> is_in_diff \<lparr>sg_options = \<lparr>select = [], ignore = [], disable_noqa = False, diff = True,
       jobs = ''auto''\<rparr>, selected = [], ignored = [],
       decision_cache = Mapping.empty,
       parsed_diff = Mapping.update ''c.py'' {} (Mapping.update ''a.py'' {3, 4, 5} Mapping.empty)\<rparr>
     \<lparr>code = ''E501'', filename = ''c.py'', line_number = 1, column_number = 0,
       error_text = ''line too long'', physical_line = None\<rparr>
   \<and> is_in_diff \<lparr>sg_options = \<lparr>select = [], ignore = [], disable_noqa = False, diff = True,
       jobs = ''auto''\<rparr>, selected = [], ignored = [],
       decision_cache = Mapping.empty,
       parsed_diff = Mapping.update ''a.py'' {3, 4, 5} Mapping.empty\<rparr>
     \<lparr>code = ''E501'', filename = ''a.py'', line_number = 4, column_number = 0,
       error_text = ''line too long'', physical_line = None\<rparr>
   \<and> \<not> is_in_diff \<lparr>sg_options = \<lparr>select = [], ignore = [], disable_noqa = False, diff = True,
       jobs = ''auto''\<rparr>, selected = [], ignored = [],
       decision_cache = Mapping.empty,
       parsed_diff = Mapping.update ''a.py'' {3, 4, 5} Mapping.empty\<rparr>
     \<lparr>code = ''E501'', filename = ''a.py'', line_number = 2, column_number = 0,
       error_text = ''line too long'', physical_line = None\<rparr>"
  using
    is_in_diff_cases [of
      "\<lparr>sg_options = \<lparr>select = [], ignore = [], disable_noqa = False, diff = True,
       jobs = ''auto''\<rparr>, selected = [], ignored = [],
         decision_cache = Mapping.empty, parsed_diff = Mapping.empty\<rparr>"
      "\<lparr>code = ''E501'', filename = ''a.py'', line_number = 2, column_number = 0,
         error_text = ''line too long'', physical_line = None\<rparr>" "{}"]
    is_in_diff_cases [of
      "\<lparr>sg_options = \<lparr>select = [], ignore = [], disable_noqa = False, diff = True,
       jobs = ''auto''\<rparr>, selected = [], ignored = [],
         decision_cache = Mapping.empty,
         parsed_diff = Mapping.update ''a.py'' {3, 4, 5} Mapping.empty\<rparr>"
      "\<lparr>code = ''E501'', filename = ''b.py'', line_number = 1, column_number = 0,
         error_text = ''line too long'', physical_line = None\<rparr>" "{}"]
    is_in_diff_cases [of
      "\<lparr>sg_options = \<lparr>select = [], ignore = [], disable_noqa = False, diff = True,
       jobs = ''auto''\<rparr>, selected = [], ignored = [],
         decision_cache = Mapping.empty,
         parsed_diff = Mapping.update ''c.py'' {} (Mapping.update ''a.py'' {3, 4, 5} Mapping.empty)\<rparr>"
      "\<lparr>code = ''E501'', filename = ''c.py'', line_number = 1, column_number = 0,
         error_text = ''line too long'', physical_line = None\<rparr>" "{}"]
    is_in_diff_cases [of
      "\<lparr>sg_options = \<lparr>select = [], ignore = [], disable_noqa = False, diff = True,
       jobs = ''auto''\<rparr>, selected = [], ignored = [],
         decision_cache = Mapping.empty,
         parsed_diff = Mapping.update ''a.py'' {3, 4, 5} Mapping.empty\<rparr>"
      "\<lparr>code = ''E501'', filename = ''a.py'', line_number = 4, column_number = 0,
         error_text = ''line too long'', physical_line = None\<rparr>" "{3, 4, 5}"]
    is_in_diff_cases [of
      "\<lparr>sg_options = \<lparr>select = [], ignore = [], disable_noqa = False, diff = True,
       jobs = ''auto''\<rparr>, selected = [], ignored = [],
         decision_cache = Mapping.empty,
         parsed_diff = Mapping.update ''a.py'' {3, 4, 5} Mapping.empty\<rparr>"
      "\<lparr>code = ''E501'', filename = ''a.py'', line_number = 2, column_number = 0,
         error_text = ''line too long'', physical_line = None\<rparr>" "{3, 4, 5}"]
  by simp

subsection \<open>_job_count\<close>

lemma decimal_value_nonneg_aux:
  "list_all is_decimal s \<Longrightarrow> 0 \<le> acc \<Longrightarrow>
     0 \<le> foldl (\<lambda>acc c. 10 * acc + digit_value c) acc s"
proof (induction s arbitrary: acc)
  case Nil
  then show ?case by simp
next
  case (Cons c s)
  from Cons.prems have "48 \<le> (of_char c :: nat)"
    by (simp add: is_decimal_def less_eq_char_def)
  then have "0 \<le> 10 * acc + digit_value c"
    using Cons.prems by (simp add: digit_value_def)
  with Cons show ?case by simp
qed

lemma decimal_value_nonneg: "list_all is_decimal s \<Longrightarrow> 0 \<le> decimal_value s"
  using decimal_value_nonneg_aux [of s 0] by (simp add: decimal_value_def)

text \<open>
  What \<open>_job_count\<close> returns, case by case. It is 0 when multiprocessing is
  unavailable, on Windows, when input comes from standard input, when a diff run was
  requested, and when the job value is neither \<open>auto\<close> nor passes \<open>isdigit\<close> (such
  as \<open>banana\<close>). For \<open>auto\<close> it is the CPU count, or 0 when that is not available.
  For a string of decimal digits it is its value, a non-negative integer. For a string
  that passes \<open>isdigit\<close> with a digit that is not decimal it raises \<open>ValueError\<close>.
\<close>

lemma job_count_cases:
  "(\<not> multiprocessing env \<or> is_windows env \<or> is_using_stdin env \<or> diff opts
      \<or> (jobs opts \<noteq> ''auto'' \<and> \<not> isdigit (jobs opts))
      \<longrightarrow> job_count env opts = Inr 0)
   \<and> (multiprocessing env \<and> \<not> is_windows env \<and> \<not> is_using_stdin env \<and> \<not> diff opts
      \<and> jobs opts = ''auto''
      \<longrightarrow> job_count env opts = Inr (case cpu_count env of Some n \<Rightarrow> n | None \<Rightarrow> 0))
   \<and> (multiprocessing env \<and> \<not> is_windows env \<and> \<not> is_using_stdin env \<and> \<not> diff opts
      \<and> jobs opts \<noteq> ''auto'' \<and> isdigit (jobs opts) \<and> list_all is_decimal (jobs opts)
      \<longrightarrow> job_count env opts = Inr (decimal_value (jobs opts))
          \<and> 0 \<le> decimal_value (jobs opts))
   \<and> (multiprocessing env \<and> \<not> is_windows env \<and> \<not> is_using_stdin env \<and> \<not> diff opts
      \<and> jobs opts \<noteq> ''auto'' \<and> isdigit (jobs opts) \<and> \<not> list_all is_decimal (jobs opts)
      \<longrightarrow> job_count env opts = Inl ValueError)
   \<and> (jobs opts = ''banana'' \<longrightarrow> job_count env opts = Inr 0)
   \<and> (jobs opts = ''0'' \<longrightarrow> job_count env opts = Inr 0)"
proof -
  have banana: "\<not> isdigit ''banana''"
    by (simp add: isdigit_def is_digit_def is_decimal_def)
  have zero: "isdigit ''0''" "list_all is_decimal ''0''" "decimal_value ''0'' = 0"
    by (simp_all add: isdigit_def is_digit_def is_decimal_def decimal_value_def digit_value_def)
  have a: "\<not> multiprocessing env \<or> is_windows env \<or> is_using_stdin env \<or> diff opts
      \<or> (jobs opts \<noteq> ''auto'' \<and> \<not> isdigit (jobs opts))
      \<longrightarrow> job_count env opts = Inr 0"
    by (auto simp: job_count_def)
  have b: "multiprocessing env \<and> \<not> is_windows env \<and> \<not> is_using_stdin env \<and> \<not> diff opts
      \<and> jobs opts = ''auto''
      \<longrightarrow> job_count env opts = Inr (case cpu_count env of Some n \<Rightarrow> n | None \<Rightarrow> 0)"
    by (simp add: job_count_def split: option.splits)
  have c: "multiprocessing env \<and> \<not> is_windows env \<and> \<not> is_using_stdin env \<and> \<not> diff opts
      \<and> jobs opts \<noteq> ''auto'' \<and> isdigit (jobs opts) \<and> list_all is_decimal (jobs opts)
      \<longrightarrow> job_count env opts = Inr (decimal_value (jobs opts))
          \<and> 0 \<le> decimal_value (jobs opts)"
    by (simp add: job_count_def py_int_def isdigit_def decimal_value_nonneg)
  have d: "multiprocessing env \<and> \<not> is_windows env \<and> \<not> is_using_stdin env \<and> \<not> diff opts
      \<and> jobs opts \<noteq> ''auto'' \<and> isdigit (jobs opts) \<and> \<not> list_all is_decimal (jobs opts)
      \<longrightarrow> job_count env opts = Inl ValueError"
    by (simp add: job_count_def py_int_def)
  have e: "jobs opts = ''banana'' \<longrightarrow> job_count env opts = Inr 0"
    using banana by (simp add: job_count_def)
  have f: "jobs opts = ''0'' \<longrightarrow> job_count env opts = Inr 0"
    using zero by (simp add: job_count_def py_int_def)
  from a b c d e f show ?thesis by blast
qed

text \<open>
  C8. The code does not do what the claim says. The job value made of the one character
  U+00B2 (superscript two) is neither \<open>auto\<close> nor a valid integer string, but it
  passes \<open>isdigit\<close>, so \<open>_job_count\<close> goes on to \<open>int(jobs)\<close>, which raises
  \<open>ValueError\<close>: it does not return 0.
\<close>

theorem job_count_superscript_digit:
  "isdigit [CHR 0xB2]
   \<and> job_count \<lparr>multiprocessing = True, is_windows = False, is_using_stdin = False,
       cpu_count = Some 8\<rparr>
     \<lparr>select = [], ignore = [], disable_noqa = False, diff = False, jobs = [CHR 0xB2]\<rparr>
     = Inl ValueError"
  by (simp add: job_count_def py_int_def isdigit_def is_digit_def is_decimal_def)

subsection \<open>should_report_error\<close>

lemma hd_sorted_Min: "sorted ys \<Longrightarrow> ys \<noteq> [] \<Longrightarrow> hd ys = Min (set ys)"
proof (cases ys)
  case Nil
  assume "ys \<noteq> []" with Nil show ?thesis by simp
next
  case (Cons y rest)
  assume "sorted ys"
  with Cons have "\<forall>z \<in> set rest. y \<le> z" by simp
  then have "Min (set (y # rest)) = y"
    by (intro Min_eqI) auto
  with Cons show ?thesis by simp
qed

lemma hd_sort_Min: "xs \<noteq> [] \<Longrightarrow> hd (sort xs) = Min (set xs)"
proof -
  assume "xs \<noteq> []"
  then have "sort xs \<noteq> []" by (metis length_sort length_0_conv)
  then show ?thesis using hd_sorted_Min [of "sort xs"] by simp
qed

lemma decision_for_Min:
  assumes "startswith c (selected self)" "startswith c (ignored self)"
  shows "decision_for self c =
    Inr (if prefix (Min {i \<in> set (ignored self). prefix i c}) (Min {s \<in> set (selected self). prefix s c})
         then Selected else Ignored)"
proof -
  let ?S = "filter (\<lambda>s. prefix s c) (selected self)"
  let ?I = "filter (\<lambda>i. prefix i c) (ignored self)"
  from assms have ne: "?S \<noteq> []" "?I \<noteq> []"
    by (auto simp: startswith_def list_ex_iff filter_empty_conv)
  then have ne': "sort ?S \<noteq> []" "sort ?I \<noteq> []"
    by (metis length_sort length_0_conv)+
  have "hd (sort ?S) = Min (set ?S)" "hd (sort ?I) = Min (set ?I)"
    using hd_sort_Min [OF ne(1)] hd_sort_Min [OF ne(2)] by simp_all
  moreover have "set ?S = {s \<in> set (selected self). prefix s c}"
    "set ?I = {i \<in> set (ignored self). prefix i c}" by auto
  ultimately have hd: "hd (sort ?S) = Min {s \<in> set (selected self). prefix s c}"
    "hd (sort ?I) = Min {i \<in> set (ignored self). prefix i c}" by simp_all
  obtain s ss where s: "sort ?S = s # ss" using ne'(1) by (cases "sort ?S") auto
  obtain i rest where i: "sort ?I = i # rest" using ne'(2) by (cases "sort ?I") auto
  from hd s i show ?thesis
    by (simp add: decision_for_def)
qed

lemma decision_for_cache [simp]:
  "decision_for (self\<lparr>decision_cache := m\<rparr>) c = decision_for self c"
  by (simp add: decision_for_def split: list.splits)

lemma uncached_decision_cache [simp]:
  "uncached_decision (self\<lparr>decision_cache := m\<rparr>) c = uncached_decision self c"
  by (simp add: uncached_decision_def is_user_selected_def is_user_ignored_def)


lemma should_report_error_step:
  assumes "cache_consistent self" "should_report_error self c = Inr (d, self')"
  shows "cache_consistent self' \<and> selected self' = selected self \<and> ignored self' = ignored self
     \<and> uncached_decision self c = Inr d"
  using assms
  by (auto simp: should_report_error_def cache_get_def cache_consistent_def Mapping.lookup_update'
      split: option.splits sum.splits if_splits)

lemma should_report_error_value:
  assumes "cache_consistent self" "uncached_decision self c = Inr (Some d)"
  shows "\<exists>self'. should_report_error self c = Inr (Some d, self')"
  using assms
  by (auto simp: should_report_error_def cache_get_def cache_consistent_def
      split: option.splits sum.splits)

lemma after_calls_inv:
  "cache_consistent self \<Longrightarrow>
     cache_consistent (after_calls self cs) \<and> selected (after_calls self cs) = selected self
       \<and> ignored (after_calls self cs) = ignored self"
proof (induction cs arbitrary: self)
  case Nil
  then show ?case by simp
next
  case (Cons c cs)
  show ?case
  proof (cases "should_report_error self c")
    case (Inl e)
    with Cons show ?thesis by simp
  next
    case (Inr r)
    obtain d self' where r: "r = (d, self')" by (cases r)
    from should_report_error_step [OF Cons.prems] Inr r
    have "cache_consistent self'" "selected self' = selected self" "ignored self' = ignored self"
      by simp_all
    with Cons.IH [of self'] Inr r show ?thesis by simp
  qed
qed

lemma init_consistent: "cache_consistent (StyleGuide_init opts)"
  by (simp add: cache_consistent_def StyleGuide_init_def)

lemma decision_for_cong:
  "selected a = selected b \<Longrightarrow> ignored a = ignored b \<Longrightarrow>
     decision_for a c = decision_for b c"
  by (simp add: decision_for_def split: list.splits)

lemma uncached_decision_cong:
  "selected a = selected b \<Longrightarrow> ignored a = ignored b \<Longrightarrow>
     uncached_decision a c = uncached_decision b c"
  using decision_for_cong [of a b c]
  by (simp add: uncached_decision_def is_user_selected_def is_user_ignored_def)

lemma uncached_decision_tie:
  assumes "is_user_selected self c = Selected_Explicitly"
    and "is_user_ignored self c = Ignored_Explicitly"
  shows "uncached_decision self c =
    Inr (Some (if prefix (Min {i \<in> set (ignored self). prefix i c})
                   (Min {s \<in> set (selected self). prefix s c})
               then Selected else Ignored))"
proof -
  from assms have "startswith c (selected self)" "startswith c (ignored self)"
    by (auto simp: is_user_selected_def is_user_ignored_def split: if_splits)
  from decision_for_Min [OF this] assms show ?thesis
    by (simp add: uncached_decision_def)
qed

lemma should_report_error_reachable:
  assumes "uncached_decision (StyleGuide_init opts) c = Inr (Some d)"
  shows "\<exists>self'. should_report_error (after_calls (StyleGuide_init opts) cs) c = Inr (Some d, self')"
proof -
  let ?s = "after_calls (StyleGuide_init opts) cs"
  from after_calls_inv [OF init_consistent, of opts cs]
  have inv: "cache_consistent ?s" and same: "selected ?s = selected (StyleGuide_init opts)"
    "ignored ?s = ignored (StyleGuide_init opts)" by simp_all
  from uncached_decision_cong [OF same] assms have "uncached_decision ?s c = Inr (Some d)"
    by simp
  from should_report_error_value [OF inv this] show ?thesis .
qed

text \<open>
  C5. A code that is both explicitly selected and explicitly ignored: in every state the
  style guide reaches from its construction through earlier \<open>should_report_error\<close>
  calls, \<open>should_report_error\<close> returns Selected exactly when the least (in string
  order) matching ignored prefix is a prefix of the least matching selected prefix, and
  Ignored otherwise. With select \<open>E1\<close> and ignore \<open>E\<close>, the code \<open>E123\<close> is
  Selected and the code \<open>E9\<close> is Ignored.
\<close>

theorem should_report_tie_break:
  "(is_user_selected (StyleGuide_init opts) c = Selected_Explicitly
      \<and> is_user_ignored (StyleGuide_init opts) c = Ignored_Explicitly \<longrightarrow>
    (\<exists>self'. should_report_error (after_calls (StyleGuide_init opts) cs) c =
       Inr (Some (if prefix (Min {i \<in> set (ignore opts). prefix i c})
                        (Min {s \<in> set (select opts). prefix s c})
                  then Selected else Ignored), self')))
   \<and> (select opts = [''E1''] \<and> ignore opts = [''E''] \<longrightarrow>
        (\<exists>self'. should_report_error (after_calls (StyleGuide_init opts) cs) ''E123'' =
           Inr (Some Selected, self'))
      \<and> (\<exists>self'. should_report_error (after_calls (StyleGuide_init opts) cs) ''E9'' =
           Inr (Some Ignored, self')))"
proof (intro conjI impI)
  assume h: "is_user_selected (StyleGuide_init opts) c = Selected_Explicitly
      \<and> is_user_ignored (StyleGuide_init opts) c = Ignored_Explicitly"
  then have "uncached_decision (StyleGuide_init opts) c =
    Inr (Some (if prefix (Min {i \<in> set (ignore opts). prefix i c})
                   (Min {s \<in> set (select opts). prefix s c})
               then Selected else Ignored))"
    using uncached_decision_tie [of "StyleGuide_init opts" c]
    by (simp add: StyleGuide_init_def)
  then show "\<exists>self'. should_report_error (after_calls (StyleGuide_init opts) cs) c =
       Inr (Some (if prefix (Min {i \<in> set (ignore opts). prefix i c})
                        (Min {s \<in> set (select opts). prefix s c})
                  then Selected else Ignored), self')"
    by (rule should_report_error_reachable)
next
  assume h: "select opts = [''E1''] \<and> ignore opts = [''E'']"
  then have "uncached_decision (StyleGuide_init opts) ''E123'' = Inr (Some Selected)"
    by (simp add: uncached_decision_def StyleGuide_init_def is_user_selected_def
        is_user_ignored_def startswith_def decision_for_def)
  then show "\<exists>self'. should_report_error (after_calls (StyleGuide_init opts) cs) ''E123'' =
           Inr (Some Selected, self')"
    by (rule should_report_error_reachable)
next
  assume h: "select opts = [''E1''] \<and> ignore opts = [''E'']"
  then have "uncached_decision (StyleGuide_init opts) ''E9'' = Inr (Some Ignored)"
    by (simp add: uncached_decision_def StyleGuide_init_def is_user_selected_def
        is_user_ignored_def startswith_def decision_for_def)
  then show "\<exists>self'. should_report_error (after_calls (StyleGuide_init opts) cs) ''E9'' =
           Inr (Some Ignored, self')"
    by (rule should_report_error_reachable)
qed

theorem should_report_tie_break_witness:
  "is_user_selected (StyleGuide_init
       \<lparr>select = [''E12'', ''E1''], ignore = [''E''], disable_noqa = False, diff = False,
        jobs = ''auto''\<rparr>) ''E123'' = Selected_Explicitly
   \<and> is_user_ignored (StyleGuide_init
       \<lparr>select = [''E12'', ''E1''], ignore = [''E''], disable_noqa = False, diff = False,
        jobs = ''auto''\<rparr>) ''E123'' = Ignored_Explicitly
   \<and> (\<exists>self'. should_report_error (after_calls (StyleGuide_init
       \<lparr>select = [''E12'', ''E1''], ignore = [''E''], disable_noqa = False, diff = False,
        jobs = ''auto''\<rparr>) [''E9'', ''E123'']) ''E123'' = Inr (Some Selected, self'))
   \<and> (\<exists>self'. should_report_error (after_calls (StyleGuide_init
       \<lparr>select = [''E1''], ignore = [''E''], disable_noqa = False, diff = False,
        jobs = ''auto''\<rparr>) [''E9'', ''E123'']) ''E9'' = Inr (Some Ignored, self'))"
proof -
  have m: "Min {s \<in> set [''E12'', ''E1'']. prefix s ''E123''} = ''E1''"
    "Min {i \<in> set [''E'']. prefix i ''E123''} = ''E''"
  proof -
    have "{s \<in> set [''E12'', ''E1'']. prefix s ''E123''} = {''E12'', ''E1''}" by auto
    then show "Min {s \<in> set [''E12'', ''E1'']. prefix s ''E123''} = ''E1''" by simp
    have "{i \<in> set [''E'']. prefix i ''E123''} = {''E''}" by auto
    then show "Min {i \<in> set [''E'']. prefix i ''E123''} = ''E''" by simp
  qed
  show ?thesis
    using m
      should_report_tie_break [of
        "\<lparr>select = [''E12'', ''E1''], ignore = [''E''], disable_noqa = False, diff = False,
          jobs = ''auto''\<rparr>" "''E123''" "[''E9'', ''E123'']"]
      should_report_tie_break [of
        "\<lparr>select = [''E1''], ignore = [''E''], disable_noqa = False, diff = False,
          jobs = ''auto''\<rparr>" "''E123''" "[''E9'', ''E123'']"]
    by (simp add: is_user_selected_def is_user_ignored_def startswith_def StyleGuide_init_def)
qed

subsection \<open>is_inline_ignored\<close>

lemma same_ignoring_case_hash: "same_ignoring_case p CHR ''#'' \<longleftrightarrow> p = CHR ''#''"
proof
  assume "same_ignoring_case p CHR ''#''"
  then have "(of_char p :: nat) = 35"
    by (simp add: same_ignoring_case_def case_fold_def Let_def split: if_splits)
  then have "(of_char p :: nat) = of_char CHR ''#''" by simp
  then show "p = CHR ''#''" by (simp only: of_char_eq_iff)
next
  assume "p = CHR ''#''"
  then show "same_ignoring_case p CHR ''#''" by (simp add: same_ignoring_case_def)
qed

lemma hash_same_ignoring_case: "same_ignoring_case CHR ''#'' c \<longleftrightarrow> c = CHR ''#''"
proof
  assume "same_ignoring_case CHR ''#'' c"
  then have "(of_char c :: nat) = 35"
    by (simp add: same_ignoring_case_def case_fold_def Let_def split: if_splits)
  then have "(of_char c :: nat) = of_char CHR ''#''" by simp
  then show "c = CHR ''#''" by (simp only: of_char_eq_iff)
next
  assume "c = CHR ''#''"
  then show "same_ignoring_case CHR ''#'' c" by (simp add: same_ignoring_case_def)
qed

lemma not_code_char [simp]:
  "\<not> is_code_char CHR ''#''" "\<not> is_code_char CHR 0x0A" "\<not> is_code_char CHR '':''"
  "\<not> is_code_char CHR '' ''"
  by (simp_all add: is_code_char_def)

lemma match_literal_split:
  "match_literal ps s = Some r \<Longrightarrow> CHR ''#'' \<notin> set ps \<Longrightarrow>
     \<exists>m. s = m @ r \<and> CHR ''#'' \<notin> set m"
proof (induction ps s rule: match_literal.induct)
  case (1 s)
  then show ?case by simp
next
  case (2 p ps)
  then show ?case by simp
next
  case (3 p ps c cs)
  from "3.prems" have sic: "same_ignoring_case p c" and rest: "match_literal ps cs = Some r"
    by (simp_all split: if_splits)
  from "3.prems" have "p \<noteq> CHR ''#''" by auto
  with sic have c: "c \<noteq> CHR ''#''" using same_ignoring_case_hash by blast
  from "3.IH" [OF sic rest] "3.prems" obtain m where "cs = m @ r" "CHR ''#'' \<notin> set m"
    by auto
  with c have "c # cs = (c # m) @ r \<and> CHR ''#'' \<notin> set (c # m)" by simp
  then show ?case by blast
qed

lemma match_literal_append:
  "list_all2 same_ignoring_case ps m \<Longrightarrow> match_literal ps (m @ x) = Some x"
  by (induction ps m rule: list_all2_induct) simp_all

lemma try_runs_at_end:
  "try_runs n x = Some g \<Longrightarrow> \<exists>k \<le> n. at_end (drop k x)"
proof (induction n)
  case 0
  then show ?case by (simp split: if_splits)
next
  case (Suc n)
  show ?case
  proof (cases "at_end (drop (Suc n) x)")
    case True
    then show ?thesis by blast
  next
    case False
    with Suc.prems have "try_runs n x = Some g" by simp
    from Suc.IH [OF this] show ?thesis using le_Suc_eq by blast
  qed
qed

lemma match_codes_end_no_hash:
  assumes "match_codes_end x = Some g"
  shows "CHR ''#'' \<notin> set x"
proof -
  let ?run = "takeWhile is_code_char x"
  from assms obtain k where k: "k \<le> length ?run" "at_end (drop k x)"
    using try_runs_at_end unfolding match_codes_end_def by blast
  have "x = ?run @ dropWhile is_code_char x" by simp
  then have "take k x = take k ?run" using k(1)
    by (metis append.right_neutral diff_is_0_eq take_0 take_append)
  then have "set (take k x) \<subseteq> set ?run" by (simp add: set_take_subset)
  moreover have "CHR ''#'' \<notin> set ?run"
    using set_takeWhileD [of "CHR ''#''" is_code_char x] by auto
  ultimately have a: "CHR ''#'' \<notin> set (take k x)" by blast
  from k(2) have b: "CHR ''#'' \<notin> set (drop k x)" by (auto simp: at_end_def)
  have "set x = set (take k x) \<union> set (drop k x)"
    by (metis append_take_drop_id set_append)
  with a b show ?thesis by simp
qed

lemma match_here_shape:
  assumes "match_here s = Some g"
  shows "\<exists>t. s = CHR ''#'' # t \<and> CHR ''#'' \<notin> set t"
proof -
  from assms obtain r where r: "match_literal ''# noqa'' s = Some r"
    by (auto simp: match_here_def split: option.splits)
  then obtain c cs where s: "s = c # cs" by (cases s) auto
  with r have c: "c = CHR ''#''" and r': "match_literal '' noqa'' cs = Some r"
    by (simp_all add: hash_same_ignoring_case split: if_splits)
  from match_literal_split [OF r'] obtain m where m: "cs = m @ r" "CHR ''#'' \<notin> set m"
    by auto
  have "CHR ''#'' \<notin> set r"
  proof (cases "match_literal '': '' r")
    case None
    with assms r have "match_codes_end r = Some g" by (simp add: match_here_def)
    then show ?thesis by (rule match_codes_end_no_hash)
  next
    case (Some r2)
    from match_literal_split [OF Some] obtain m2 where m2: "r = m2 @ r2" "CHR ''#'' \<notin> set m2"
      by auto
    show ?thesis
    proof (cases "match_codes_end r2")
      case None
      with assms r Some have "match_codes_end r = Some g" by (simp add: match_here_def)
      then show ?thesis by (rule match_codes_end_no_hash)
    next
      case (Some g2)
      from match_codes_end_no_hash [OF Some] m2 show ?thesis by simp
    qed
  qed
  with m s c show ?thesis by simp
qed

lemma search_leftmost:
  assumes "match_here s = Some g"
  shows "search (pre @ s) = Some g"
proof (induction pre)
  case Nil
  from match_here_shape [OF assms] obtain t where "s = CHR ''#'' # t" by blast
  with assms show ?case by simp
next
  case (Cons c pre)
  have "match_here (c # pre @ s) = None"
  proof (rule ccontr)
    assume "match_here (c # pre @ s) \<noteq> None"
    then obtain g' where "match_here (c # pre @ s) = Some g'" by blast
    from match_here_shape [OF this] have "CHR ''#'' \<notin> set (pre @ s)" by simp
    moreover from match_here_shape [OF assms] have "CHR ''#'' \<in> set s" by auto
    ultimately show False by simp
  qed
  with Cons show ?case by simp
qed

lemma match_codes_end_codes:
  assumes "list_all is_code_char codes" "eol = [] \<or> eol = [CHR 0x0A]"
  shows "match_codes_end (codes @ eol) = Some (if codes = [] then None else Some codes)"
proof -
  have tw: "takeWhile is_code_char (codes @ eol) = codes"
    using assms by (auto simp: takeWhile_append2 list_all_iff)
  show ?thesis
  proof (cases codes)
    case Nil
    with assms show ?thesis by (auto simp: match_codes_end_def at_end_def)
  next
    case (Cons c cs)
    then have "length codes = Suc (length cs)" by simp
    with tw assms(2) Cons show ?thesis
      by (auto simp: match_codes_end_def at_end_def)
  qed
qed

lemma match_here_comment:
  assumes m: "list_all2 same_ignoring_case ''# noqa'' m"
    and sep: "sep = [] \<or> sep = '': ''"
    and codes: "list_all is_code_char codes"
    and eol: "eol = [] \<or> eol = [CHR 0x0A]"
  shows "match_here (m @ sep @ codes @ eol) = Some (if codes = [] then None else Some codes)"
proof -
  have lit: "match_literal ''# noqa'' (m @ sep @ codes @ eol) = Some (sep @ codes @ eol)"
    using m by (rule match_literal_append)
  have tail: "match_codes_end (codes @ eol) = Some (if codes = [] then None else Some codes)"
    using codes eol by (rule match_codes_end_codes)
  from sep show ?thesis
  proof
    assume s: "sep = '': ''"
    have "match_literal '': '' ('': '' @ codes @ eol) = Some (codes @ eol)"
      by (rule match_literal_append) (simp add: same_ignoring_case_def)
    with lit tail s show ?thesis by (simp add: match_here_def)
  next
    assume s: "sep = []"
    have "match_literal '': '' (codes @ eol) = None"
    proof (cases "codes @ eol")
      case Nil
      then show ?thesis by simp
    next
      case (Cons c cs)
      then have "is_code_char c \<or> c = CHR 0x0A"
        using codes eol by (cases codes) auto
      then have "\<not> same_ignoring_case CHR '':'' c"
        by (auto simp: same_ignoring_case_def case_fold_def is_code_char_def less_eq_char_def Let_def split: if_splits)
      with Cons show ?thesis by simp
    qed
    with lit tail s show ?thesis by (simp add: match_here_def)
  qed
qed

lemma is_inline_ignored_match:
  assumes "\<not> disable_noqa (sg_options self)"
    and "match_here s = Some g" and "line_of getline err = pre @ s"
  shows "is_inline_ignored getline parse self err =
     (case g of None \<Rightarrow> True
      | Some codes_str \<Rightarrow>
          code err \<in> set (parse codes_str) \<or> (\<exists>c \<in> set (parse codes_str). prefix c (code err)))"
  using assms search_leftmost [OF assms(2), of pre]
  by (simp add: is_inline_ignored_def startswith_def list_ex_iff Let_def split: option.splits)

text \<open>
  C6, as amended. When inline suppression is not disabled (\<open>disable_noqa\<close> is false):
  a diagnostic whose physical line ends, before an optional final newline, in the comment
  \<open># noqa\<close> (a hash, one space and \<open>noqa\<close> in any letter case) is suppressed whatever
  its code; when that \<open># noqa\<close> is followed, at once or after \<open>: \<close>, by a code list
  made only of letters, digits and commas that runs to the end of the line, the
  diagnostic is suppressed exactly when its code equals a listed code or starts with
  one. For a line ending in \<open># noqa: E501,W291\<close>, whose listed codes are \<open>E501\<close> and
  \<open>W291\<close>, the code \<open>E501\<close> is suppressed and the code \<open>E302\<close> is not.
\<close>

theorem is_inline_ignored_noqa:
  "\<not> disable_noqa (sg_options self) \<longrightarrow>
     (list_all2 same_ignoring_case ''# noqa'' m \<and> (eol = [] \<or> eol = [CHR 0x0A])
        \<and> line_of getline err = pre @ m @ eol
      \<longrightarrow> is_inline_ignored getline parse self err)
   \<and> (list_all2 same_ignoring_case ''# noqa'' m \<and> (sep = [] \<or> sep = '': '')
        \<and> codes \<noteq> [] \<and> list_all is_code_char codes \<and> (eol = [] \<or> eol = [CHR 0x0A])
        \<and> line_of getline err = pre @ m @ sep @ codes @ eol
      \<longrightarrow> is_inline_ignored getline parse self err =
            (code err \<in> set (parse codes) \<or> (\<exists>c \<in> set (parse codes). prefix c (code err))))
   \<and> ((eol = [] \<or> eol = [CHR 0x0A])
        \<and> line_of getline err = pre @ ''# noqa: E501,W291'' @ eol
        \<and> set (parse ''E501,W291'') = {''E501'', ''W291''}
      \<longrightarrow> (code err = ''E501'' \<longrightarrow> is_inline_ignored getline parse self err)
          \<and> (code err = ''E302'' \<longrightarrow> \<not> is_inline_ignored getline parse self err))"
proof
  assume on: "\<not> disable_noqa (sg_options self)"
  have bare: "is_inline_ignored getline parse self err"
    if h: "list_all2 same_ignoring_case ''# noqa'' m \<and> (eol = [] \<or> eol = [CHR 0x0A])
        \<and> line_of getline err = pre @ m @ eol"
  proof -
    from h have "match_here (m @ [] @ [] @ eol) = Some (if ([]::string) = [] then None else Some [])"
      by (intro match_here_comment) simp_all
    then have "match_here (m @ eol) = Some None" by simp
    from is_inline_ignored_match [OF on this, of getline err pre parse] h
    show ?thesis by simp
  qed
  have listed: "is_inline_ignored getline parse self err =
            (code err \<in> set (parse codes) \<or> (\<exists>c \<in> set (parse codes). prefix c (code err)))"
    if h: "list_all2 same_ignoring_case ''# noqa'' m \<and> (sep = [] \<or> sep = '': '')
        \<and> codes \<noteq> [] \<and> list_all is_code_char codes \<and> (eol = [] \<or> eol = [CHR 0x0A])
        \<and> line_of getline err = pre @ m @ sep @ codes @ eol"
  proof -
    from h have "match_here (m @ sep @ codes @ eol) = Some (if codes = [] then None else Some codes)"
      by (intro match_here_comment) simp_all
    with h have "match_here (m @ sep @ codes @ eol) = Some (Some codes)" by simp
    from is_inline_ignored_match [OF on this, of getline err pre parse] h
    show ?thesis by simp
  qed
  have example: "(code err = ''E501'' \<longrightarrow> is_inline_ignored getline parse self err)
          \<and> (code err = ''E302'' \<longrightarrow> \<not> is_inline_ignored getline parse self err)"
    if h: "(eol = [] \<or> eol = [CHR 0x0A])
        \<and> line_of getline err = pre @ ''# noqa: E501,W291'' @ eol
        \<and> set (parse ''E501,W291'') = {''E501'', ''W291''}"
  proof -
    have "match_here (''# noqa'' @ '': '' @ ''E501,W291'' @ eol) =
        Some (if ''E501,W291'' = [] then None else Some ''E501,W291'')"
      using h by (intro match_here_comment) (simp_all add: same_ignoring_case_def is_code_char_def)
    then have mh: "match_here (''# noqa: E501,W291'' @ eol) = Some (Some ''E501,W291'')" by simp
    have eq: "is_inline_ignored getline parse self err =
       (code err \<in> {''E501'', ''W291''} \<or> (\<exists>c \<in> {''E501'', ''W291''}. prefix c (code err)))"
      using is_inline_ignored_match [OF on mh, of getline err pre parse] h by simp
    show ?thesis using eq by simp
  qed
  from bare listed example
  show "(list_all2 same_ignoring_case ''# noqa'' m \<and> (eol = [] \<or> eol = [CHR 0x0A])
        \<and> line_of getline err = pre @ m @ eol
      \<longrightarrow> is_inline_ignored getline parse self err)
   \<and> (list_all2 same_ignoring_case ''# noqa'' m \<and> (sep = [] \<or> sep = '': '')
        \<and> codes \<noteq> [] \<and> list_all is_code_char codes \<and> (eol = [] \<or> eol = [CHR 0x0A])
        \<and> line_of getline err = pre @ m @ sep @ codes @ eol
      \<longrightarrow> is_inline_ignored getline parse self err =
            (code err \<in> set (parse codes) \<or> (\<exists>c \<in> set (parse codes). prefix c (code err))))
   \<and> ((eol = [] \<or> eol = [CHR 0x0A])
        \<and> line_of getline err = pre @ ''# noqa: E501,W291'' @ eol
        \<and> set (parse ''E501,W291'') = {''E501'', ''W291''}
      \<longrightarrow> (code err = ''E501'' \<longrightarrow> is_inline_ignored getline parse self err)
          \<and> (code err = ''E302'' \<longrightarrow> \<not> is_inline_ignored getline parse self err))"
    by blast
qed

text \<open>
  C6 as stated does not hold for every comment that carries a code list: with inline
  suppression enabled, the line ends in \<open># noqa: E501, W291\<close>, with a space after the
  comma, and the diagnostic with the listed code \<open>E501\<close> is not suppressed, because
  the pattern does not match a list with a space in it.
\<close>

theorem is_inline_ignored_spaced_list_counterexample:
  "\<not> is_inline_ignored (\<lambda>f n. []) parse_comma_separated_list
       \<lparr>sg_options = \<lparr>select = [], ignore = [], disable_noqa = False, diff = False,
          jobs = ''auto''\<rparr>,
        selected = [], ignored = [], decision_cache = Mapping.empty,
        parsed_diff = Mapping.empty\<rparr>
       \<lparr>code = ''E501'', filename = ''a.py'', line_number = 1, column_number = 80,
        error_text = ''line too long'',
        physical_line = Some ''x = 1  # noqa: E501, W291''\<rparr>"
  by (simp add: is_inline_ignored_def line_of_def match_here_def match_codes_end_def
      at_end_def is_code_char_def same_ignoring_case_def case_fold_def)

theorem is_inline_ignored_noqa_witness:
  "is_inline_ignored (\<lambda>f n. [])  parse_comma_separated_list
       \<lparr>sg_options = \<lparr>select = [], ignore = [], disable_noqa = False, diff = False,
          jobs = ''auto''\<rparr>,
        selected = [], ignored = [], decision_cache = Mapping.empty,
        parsed_diff = Mapping.empty\<rparr>
       \<lparr>code = ''E501'', filename = ''a.py'', line_number = 1, column_number = 80,
        error_text = ''line too long'', physical_line = Some ''x = 1  # noqa''\<rparr>
   \<and> is_inline_ignored (\<lambda>f n. ''x = 1  # NOQA: E501,W291'' @ [CHR 0x0A])
       parse_comma_separated_list
       \<lparr>sg_options = \<lparr>select = [], ignore = [], disable_noqa = False, diff = False,
          jobs = ''auto''\<rparr>,
        selected = [], ignored = [], decision_cache = Mapping.empty,
        parsed_diff = Mapping.empty\<rparr>
       \<lparr>code = ''E501'', filename = ''a.py'', line_number = 1, column_number = 80,
        error_text = ''line too long'', physical_line = None\<rparr>
   \<and> \<not> is_inline_ignored (\<lambda>f n. [])  parse_comma_separated_list
       \<lparr>sg_options = \<lparr>select = [], ignore = [], disable_noqa = False, diff = False,
          jobs = ''auto''\<rparr>,
        selected = [], ignored = [], decision_cache = Mapping.empty,
        parsed_diff = Mapping.empty\<rparr>
       \<lparr>code = ''E302'', filename = ''a.py'', line_number = 1, column_number = 0,
        error_text = ''expected 2 blank lines'',
        physical_line = Some ''x = 1  # noqa: E501,W291''\<rparr>"
  using
    is_inline_ignored_noqa [of
       "\<lparr>sg_options = \<lparr>select = [], ignore = [], disable_noqa = False, diff = False,
          jobs = ''auto''\<rparr>,
        selected = [], ignored = [], decision_cache = Mapping.empty,
        parsed_diff = Mapping.empty\<rparr>"
       "''# noqa''" "[]" "\<lambda>f n. []"
       "\<lparr>code = ''E501'', filename = ''a.py'', line_number = 1, column_number = 80,
        error_text = ''line too long'', physical_line = Some ''x = 1  # noqa''\<rparr>"
       "''x = 1  ''" parse_comma_separated_list "[]" "''E''"]
    is_inline_ignored_noqa [of
       "\<lparr>sg_options = \<lparr>select = [], ignore = [], disable_noqa = False, diff = False,
          jobs = ''auto''\<rparr>,
        selected = [], ignored = [], decision_cache = Mapping.empty,
        parsed_diff = Mapping.empty\<rparr>"
       "''# NOQA''" "[CHR 0x0A]" "\<lambda>f n. ''x = 1  # NOQA: E501,W291'' @ [CHR 0x0A]"
       "\<lparr>code = ''E501'', filename = ''a.py'', line_number = 1, column_number = 80,
        error_text = ''line too long'', physical_line = None\<rparr>"
       "''x = 1  ''" parse_comma_separated_list "'': ''" "''E501,W291''"]
    is_inline_ignored_noqa [of
       "\<lparr>sg_options = \<lparr>select = [], ignore = [], disable_noqa = False, diff = False,
          jobs = ''auto''\<rparr>,
        selected = [], ignored = [], decision_cache = Mapping.empty,
        parsed_diff = Mapping.empty\<rparr>"
       "''# noqa''" "[]" "\<lambda>f n. []"
       "\<lparr>code = ''E302'', filename = ''a.py'', line_number = 1, column_number = 0,
        error_text = ''expected 2 blank lines'',
        physical_line = Some ''x = 1  # noqa: E501,W291''\<rparr>"
       "''x = 1  ''" parse_comma_separated_list "'': ''" "''E501,W291''"]
  by (simp add: line_of_def same_ignoring_case_def case_fold_def is_code_char_def
      parse_comma_separated_list_def)

subsection \<open>The FileChecker\<close>

text \<open>
  C4. The code does not do what the claim says. On an unreadable file
  \<open>_make_processor\<close> calls \<open>self.report('E902', 0, 0, message)\<close>, and \<open>report\<close>
  reads \<open>self.processor\<close>, which \<open>__init__\<close> assigns only after
  \<open>_make_processor\<close> has returned: the construction raises \<open>AttributeError\<close> and no
  diagnostic is recorded, for every filename and every I/O error.
\<close>

theorem FileChecker_init_unreadable:
  "FileChecker_init name (Inl exception) = Inl AttributeError"
  by (simp add: FileChecker_init_def make_processor_def report_def)

lemma report_with_code:
  "processor self = Bound (Some p) \<Longrightarrow>
     report self (Some c) line_no column text =
       Inr (c, self\<lparr>results := results self @ [(c, line_no, column, text, line_for p line_no)]\<rparr>)"
  by (simp add: report_def)

text \<open>
  C9, as amended. When \<open>build_ast\<close> fails with an instance of \<open>ValueError\<close>,
  \<open>SyntaxError\<close> or \<open>TypeError\<close> (of these classes or of a class derived from them)
  that carries a primary message, the first of its arguments, \<open>run_ast_checks\<close>
  appends exactly one diagnostic, with code \<open>E999\<close> and text the name of the error's
  class, a colon and the message, and returns the checker otherwise unchanged, whatever
  the plugins are. The diagnostic is at \<open>(1, 0)\<close> when the error has no second
  argument; at items 1 and 2 of the second argument when that is a tuple of more than
  two items (the \<open>(filename, line, column, text)\<close> of a \<open>SyntaxError\<close>); and at the
  two items of the second argument when it is a pair.
\<close>

theorem run_ast_checks_failure:
  "processor self = Bound (Some p) \<and> build_ast p = Inl (Exception t (message # rest))
     \<and> (issubclass t ValueError \<or> issubclass t SyntaxError \<or> issubclass t TypeError) \<longrightarrow>
   (rest = [] \<longrightarrow>
      run_ast_checks str plugins self =
        Inr (self\<lparr>results := results self @
          [(''E999'', PyInt 1, PyInt 0, exc_name t @ '': '' @ py_format str message,
            line_for p (PyInt 1))]\<rparr>))
   \<and> (rest = PyTuple pos # others \<and> length pos > 2 \<longrightarrow>
      run_ast_checks str plugins self =
        Inr (self\<lparr>results := results self @
          [(''E999'', pos ! 1, pos ! 2, exc_name t @ '': '' @ py_format str message,
            line_for p (pos ! 1))]\<rparr>))
   \<and> (rest = PyTuple [row, col] # others \<longrightarrow>
      run_ast_checks str plugins self =
        Inr (self\<lparr>results := results self @
          [(''E999'', row, col, exc_name t @ '': '' @ py_format str message,
            line_for p row)]\<rparr>))"
proof
  assume h: "processor self = Bound (Some p) \<and> build_ast p = Inl (Exception t (message # rest))
     \<and> (issubclass t ValueError \<or> issubclass t SyntaxError \<or> issubclass t TypeError)"
  then have proc: "processor self = Bound (Some p)" by simp
  note rep = report_with_code [OF proc]
  have none: "run_ast_checks str plugins self =
        Inr (self\<lparr>results := results self @
          [(''E999'', PyInt 1, PyInt 0, exc_name t @ '': '' @ py_format str message,
            line_for p (PyInt 1))]\<rparr>)" if "rest = []"
    using h that by (auto simp: run_ast_checks_def rep py_getitem_def)
  have long: "run_ast_checks str plugins self =
        Inr (self\<lparr>results := results self @
          [(''E999'', pos ! 1, pos ! 2, exc_name t @ '': '' @ py_format str message,
            line_for p (pos ! 1))]\<rparr>)" if "rest = PyTuple pos # others \<and> length pos > 2"
    using h that
    by (auto simp: run_ast_checks_def rep py_getitem_def py_len_def py_slice_def numeral_2_eq_2)
  have pair: "run_ast_checks str plugins self =
        Inr (self\<lparr>results := results self @
          [(''E999'', row, col, exc_name t @ '': '' @ py_format str message,
            line_for p row)]\<rparr>)" if "rest = PyTuple [row, col] # others"
    using h that
    by (auto simp: run_ast_checks_def rep py_getitem_def py_len_def)
  from none long pair
  show "(rest = [] \<longrightarrow>
      run_ast_checks str plugins self =
        Inr (self\<lparr>results := results self @
          [(''E999'', PyInt 1, PyInt 0, exc_name t @ '': '' @ py_format str message,
            line_for p (PyInt 1))]\<rparr>))
   \<and> (rest = PyTuple pos # others \<and> length pos > 2 \<longrightarrow>
      run_ast_checks str plugins self =
        Inr (self\<lparr>results := results self @
          [(''E999'', pos ! 1, pos ! 2, exc_name t @ '': '' @ py_format str message,
            line_for p (pos ! 1))]\<rparr>))
   \<and> (rest = PyTuple [row, col] # others \<longrightarrow>
      run_ast_checks str plugins self =
        Inr (self\<lparr>results := results self @
          [(''E999'', row, col, exc_name t @ '': '' @ py_format str message,
            line_for p row)]\<rparr>))"
    by blast
qed

text \<open>
  C9 as stated does not hold for every value error: a \<open>ValueError\<close> raised with no
  argument has no primary message, and \<open>run_ast_checks\<close> raises \<open>IndexError\<close> on
  \<open>exception.args[0]\<close> in place of recording a diagnostic.
\<close>

theorem run_ast_checks_no_message_counterexample:
  "run_ast_checks (\<lambda>v. []) [\<lambda>ast. [(PyInt 1, PyInt 0, ''C901 too complex'')]]
     \<lparr>checker_filename = ''a.py'', results = [],
      processor = Bound (Some \<lparr>line_for = \<lambda>n. None,
        build_ast = (Inl (Exception ValueError []) :: exception + unit)\<rparr>)\<rparr>
   = Inl IndexError"
  by (simp add: run_ast_checks_def py_getitem_def)

theorem run_ast_checks_failure_witness:
  "run_ast_checks (\<lambda>v. []) [\<lambda>ast. [(PyInt 1, PyInt 0, ''C901 too complex'')]]
      \<lparr>checker_filename = ''a.py'', results = [(''E225'', PyInt 1, PyInt 1, ''missing whitespace around operator'', None)],
        processor = Bound (Some \<lparr>line_for = \<lambda>n. Some '' y = 2'',
          build_ast = (Inl (Exception (Subclass ''IndentationError'' SyntaxError)
            [PyStr ''unexpected indent'',
             PyTuple [PyStr ''a.py'', PyInt 2, PyInt 1, PyStr '' y = 2'']]) :: exception + unit)\<rparr>)\<rparr>
   = Inr \<lparr>checker_filename = ''a.py'', results = [(''E225'', PyInt 1, PyInt 1, ''missing whitespace around operator'', None),
                   (''E999'', PyInt 2, PyInt 1, ''IndentationError: unexpected indent'', Some '' y = 2'')],
        processor = Bound (Some \<lparr>line_for = \<lambda>n. Some '' y = 2'',
          build_ast = Inl (Exception (Subclass ''IndentationError'' SyntaxError)
            [PyStr ''unexpected indent'',
             PyTuple [PyStr ''a.py'', PyInt 2, PyInt 1, PyStr '' y = 2'']])\<rparr>)\<rparr>
   \<and> run_ast_checks (\<lambda>v. []) [\<lambda>ast. [(PyInt 1, PyInt 0, ''C901 too complex'')]]
      \<lparr>checker_filename = ''b.py'', results = [],
        processor = Bound (Some \<lparr>line_for = \<lambda>n. None,
          build_ast = (Inl (Exception TypeError
            [PyStr ''compile() expected string without null bytes'']) :: exception + unit)\<rparr>)\<rparr>
   = Inr \<lparr>checker_filename = ''b.py'', results = [(''E999'', PyInt 1, PyInt 0,
                    ''TypeError: compile() expected string without null bytes'', None)],
        processor = Bound (Some \<lparr>line_for = \<lambda>n. None,
          build_ast = Inl (Exception TypeError
            [PyStr ''compile() expected string without null bytes''])\<rparr>)\<rparr>
   \<and> run_ast_checks (\<lambda>v. []) [\<lambda>ast. [(PyInt 1, PyInt 0, ''C901 too complex'')]]
      \<lparr>checker_filename = ''c.py'', results = [],
        processor = Bound (Some \<lparr>line_for = \<lambda>n. None,
          build_ast = (Inl (Exception ValueError
            [PyStr ''bad input'', PyTuple [PyInt 4, PyInt 2]]) :: exception + unit)\<rparr>)\<rparr>
   = Inr \<lparr>checker_filename = ''c.py'', results = [(''E999'', PyInt 4, PyInt 2, ''ValueError: bad input'', None)],
        processor = Bound (Some \<lparr>line_for = \<lambda>n. None,
          build_ast = Inl (Exception ValueError
            [PyStr ''bad input'', PyTuple [PyInt 4, PyInt 2]])\<rparr>)\<rparr>"
  using
    run_ast_checks_failure [of
      "\<lparr>checker_filename = ''a.py'', results = [(''E225'', PyInt 1, PyInt 1, ''missing whitespace around operator'', None)],
        processor = Bound (Some \<lparr>line_for = \<lambda>n. Some '' y = 2'',
          build_ast = (Inl (Exception (Subclass ''IndentationError'' SyntaxError)
            [PyStr ''unexpected indent'',
             PyTuple [PyStr ''a.py'', PyInt 2, PyInt 1, PyStr '' y = 2'']]) :: exception + unit)\<rparr>)\<rparr>"
      "\<lparr>line_for = \<lambda>n. Some '' y = 2'',
          build_ast = (Inl (Exception (Subclass ''IndentationError'' SyntaxError)
            [PyStr ''unexpected indent'',
             PyTuple [PyStr ''a.py'', PyInt 2, PyInt 1, PyStr '' y = 2'']]) :: exception + unit)\<rparr>"
      "Subclass ''IndentationError'' SyntaxError" "PyStr ''unexpected indent''" "[PyTuple [PyStr ''a.py'', PyInt 2, PyInt 1, PyStr '' y = 2'']]"
      "\<lambda>v. []" "[\<lambda>ast. [(PyInt 1, PyInt 0, ''C901 too complex'')]]" "[PyStr ''a.py'', PyInt 2, PyInt 1, PyStr '' y = 2'']" "[]" "PyNone" "PyNone"]
    run_ast_checks_failure [of
      "\<lparr>checker_filename = ''b.py'', results = [],
        processor = Bound (Some \<lparr>line_for = \<lambda>n. None,
          build_ast = (Inl (Exception TypeError
            [PyStr ''compile() expected string without null bytes'']) :: exception + unit)\<rparr>)\<rparr>"
      "\<lparr>line_for = \<lambda>n. None,
          build_ast = (Inl (Exception TypeError
            [PyStr ''compile() expected string without null bytes'']) :: exception + unit)\<rparr>"
      "TypeError" "PyStr ''compile() expected string without null bytes''" "[]"
      "\<lambda>v. []" "[\<lambda>ast. [(PyInt 1, PyInt 0, ''C901 too complex'')]]" "[]" "[]" "PyNone" "PyNone"]
    run_ast_checks_failure [of
      "\<lparr>checker_filename = ''c.py'', results = [],
        processor = Bound (Some \<lparr>line_for = \<lambda>n. None,
          build_ast = (Inl (Exception ValueError
            [PyStr ''bad input'', PyTuple [PyInt 4, PyInt 2]]) :: exception + unit)\<rparr>)\<rparr>"
      "\<lparr>line_for = \<lambda>n. None,
          build_ast = (Inl (Exception ValueError
            [PyStr ''bad input'', PyTuple [PyInt 4, PyInt 2]]) :: exception + unit)\<rparr>"
      "ValueError" "PyStr ''bad input''" "[PyTuple [PyInt 4, PyInt 2]]"
      "\<lambda>v. []" "[\<lambda>ast. [(PyInt 1, PyInt 0, ''C901 too complex'')]]" "[]" "[]" "PyInt 4" "PyInt 2"]
  by (simp add: exc_name_def py_format_def)

subsection \<open>The Manager\<close>

lemma results_loop_blocks:
  "seen_done + int (count_list queue DONE) < n \<Longrightarrow> results_loop n seen_done queue = None"
proof (induction queue arbitrary: seen_done)
  case Nil
  show ?case by simp
next
  case (Cons m queue)
  show ?case
  proof (cases m)
    case DONE
    with Cons.prems have "seen_done + 1 + int (count_list queue DONE) < n" by simp
    from Cons.IH [OF this] DONE Cons.prems show ?thesis by simp
  next
    case (Result name rs)
    with Cons.prems have "seen_done + int (count_list queue DONE) < n" by simp
    from Cons.IH [OF this] Result show ?thesis by simp
  qed
qed

lemma count_run_checks_from_queue:
  "count_list (run_checks_from_queue run_checks received) DONE
     = Suc (count_list (List.map_filter run_checks received) DONE)"
  by (simp add: run_checks_from_queue_def)

text \<open>
  C1. The code does not do what the claim says. \<open>_report_after_serial\<close> sorts a
  checker's results by \<open>(tup[2], tup[3])\<close>, the column and the text, not by
  \<open>(line_number, column)\<close>: for a file with a diagnostic at line 1, column 80 and one
  at line 3, column 0, \<open>report()\<close> forwards the line 3 diagnostic first.
\<close>

theorem report_serial_order:
  "Manager_report
     \<lparr>manager_jobs = 0, using_multiprocessing = False,
      checkers = [\<lparr>checker_filename = ''a.py'',
        results = [(''E501'', 1, 80, ''line too long (85 > 79 characters)'', None),
                   (''E302'', 3, 0, ''expected 2 blank lines, found 1'', None)],
        processor = Bound (None :: (int, unit) processor option)\<rparr>]\<rparr>
   = [\<lparr>code = ''E302'', filename = ''a.py'', line_number = 3, column_number = 0,
       error_text = ''expected 2 blank lines, found 1'', physical_line = None\<rparr>,
      \<lparr>code = ''E501'', filename = ''a.py'', line_number = 1, column_number = 80,
       error_text = ''line too long (85 > 79 characters)'', physical_line = None\<rparr>]"
  by (simp add: Manager_report_def report_after_serial_def handle_error_calls_def)

text \<open>
  C2. The code does not do what the claim says. For one file with the two diagnostics
  above, the serial path forwards line 3 before line 1. The parallel path with two jobs
  never reports when the queue holds the results and the one sentinel of the one worker;
  and if a second sentinel arrives it forwards line 1 before line 3.
\<close>

theorem serial_parallel_differ:
  "report_after_serial
     \<lparr>manager_jobs = 0, using_multiprocessing = False,
      checkers = [\<lparr>checker_filename = ''a.py'',
        results = [(''E501'', 1, 80, ''line too long (85 > 79 characters)'', None),
                   (''E302'', 3, 0, ''expected 2 blank lines, found 1'', None)],
        processor = Bound (None :: (int, unit) processor option)\<rparr>]\<rparr>
   = [\<lparr>code = ''E302'', filename = ''a.py'', line_number = 3, column_number = 0,
       error_text = ''expected 2 blank lines, found 1'', physical_line = None\<rparr>,
      \<lparr>code = ''E501'', filename = ''a.py'', line_number = 1, column_number = 80,
       error_text = ''line too long (85 > 79 characters)'', physical_line = None\<rparr>]
   \<and> report_after_parallel
     \<lparr>manager_jobs = 2, using_multiprocessing = True,
      checkers = [\<lparr>checker_filename = ''a.py'',
        results = [(''E501'', 1, 80, ''line too long (85 > 79 characters)'', None),
                   (''E302'', 3, 0, ''expected 2 blank lines, found 1'', None)],
        processor = Bound (None :: (int, unit) processor option)\<rparr>]\<rparr>
     [Result ''a.py'' [(''E501'', 1, 80, ''line too long (85 > 79 characters)'', None),
                      (''E302'', 3, 0, ''expected 2 blank lines, found 1'', None)],
      DONE]
   = None
   \<and> report_after_parallel
     \<lparr>manager_jobs = 2, using_multiprocessing = True,
      checkers = [\<lparr>checker_filename = ''a.py'',
        results = [(''E501'', 1, 80, ''line too long (85 > 79 characters)'', None),
                   (''E302'', 3, 0, ''expected 2 blank lines, found 1'', None)],
        processor = Bound (None :: (int, unit) processor option)\<rparr>]\<rparr>
     [Result ''a.py'' [(''E501'', 1, 80, ''line too long (85 > 79 characters)'', None),
                      (''E302'', 3, 0, ''expected 2 blank lines, found 1'', None)],
      DONE, DONE]
   = Some
     [\<lparr>code = ''E501'', filename = ''a.py'', line_number = 1, column_number = 80,
       error_text = ''line too long (85 > 79 characters)'', physical_line = None\<rparr>,
      \<lparr>code = ''E302'', filename = ''a.py'', line_number = 3, column_number = 0,
       error_text = ''expected 2 blank lines, found 1'', physical_line = None\<rparr>]"
  by (simp add: report_after_serial_def report_after_parallel_def Manager_results_def
      handle_error_calls_def)

text \<open>
  C3. The code does not do what the claim says. With two jobs, one worker is started and
  puts one sentinel on the results queue after its results; the reporter ends only at
  the second sentinel, so on the worker's output it blocks on the queue and never ends.
  (When a second sentinel does arrive, the results after it are not collected.)
\<close>

theorem reporter_waits_for_one_sentinel_too_many:
  "run_parallel_workers
     \<lparr>manager_jobs = 2, using_multiprocessing = True,
      checkers = ([] :: (int, unit) file_checker list)\<rparr> = [0]
   \<and> run_checks_from_queue (\<lambda>name. Some (Result name [])) [''a.py'', ''b.py'']
     = [Result ''a.py'' [], Result ''b.py'' [], DONE]
   \<and> Manager_results
     \<lparr>manager_jobs = 2, using_multiprocessing = True,
      checkers = ([] :: (int, unit) file_checker list)\<rparr>
     (run_checks_from_queue (\<lambda>name. Some (Result name [])) [''a.py'', ''b.py'']) = None
   \<and> Manager_results
     \<lparr>manager_jobs = 2, using_multiprocessing = True,
      checkers = ([] :: (int, unit) file_checker list)\<rparr>
     [Result ''a.py'' [], DONE, Result ''b.py'' [], DONE, Result ''c.py'' []]
     = Some [(''a.py'', []), (''b.py'', [])]"
  by (simp add: run_parallel_workers_def run_checks_from_queue_def Manager_results_def
      List.map_filter_simps)

end
